theory Spec2Isabelle
  imports Complex_Main "HOL-Library.Monad_Syntax"
begin

section \<open>Scalars\<close>

text \<open>
  The kernels of \<^verbatim>\<open>util/math/math.hpp\<close> are templates over a floating-point
  \<^verbatim>\<open>Scalar\<close>. Here a scalar is a real number: sums, products, \<open>sin\<close>, \<open>cos\<close> and
  \<open>sqrt\<close> are exact, rounding and overflow are not modelled. Two things of the
  floating-point scalar are kept, because the code depends on them:

  \<^item> a quotient whose divisor is zero, and \<open>acos\<close> outside \<open>[-1, 1]\<close>, are not numbers
    (an infinity or a NaN). Such a result is \<open>None\<close>; HOL's own \<open>x / 0 = 0\<close> is never used.
  \<^item> a zero has a sign bit, which \<open>copysign\<close> reads. The one scalar whose sign bit the
    code reads is the \<open>w\<close> coefficient of a quaternion, which carries the bit with it.

  \<^verbatim>\<open>Eigen::NumTraits<Scalar>::epsilon()\<close> is the parameter \<open>eps\<close> of every kernel
  that reads it (\<open>2^-52\<close> for double, \<open>2^-23\<close> for float).
\<close>

definition sdiv :: "real \<Rightarrow> real \<Rightarrow> real option" where
  "sdiv a b = (if b = 0 then None else Some (a / b))"

definition acos_c :: "real \<Rightarrow> real option" where
  \<comment> \<open>\<open>std::acos\<close>: NaN outside \<open>[-1, 1]\<close>.\<close>
  "acos_c x = (if - 1 \<le> x \<and> x \<le> 1 then Some (arccos x) else None)"

definition nan_gt :: "real option \<Rightarrow> real \<Rightarrow> bool" where
  \<comment> \<open>\<open>a > b\<close> where \<open>a\<close> may be NaN: every comparison with a NaN is false.\<close>
  "nan_gt a b = (case a of None \<Rightarrow> False | Some x \<Rightarrow> x > b)"

definition atan2 :: "real \<Rightarrow> real \<Rightarrow> real" where
  \<comment> \<open>\<open>std::atan2(y, x)\<close>, the angle of the point \<open>(x, y)\<close> in \<open>(-pi, pi]\<close>.\<close>
  "atan2 y x =
     (if 0 < x then arctan (y / x)
      else if x < 0 then (if 0 \<le> y then arctan (y / x) + pi else arctan (y / x) - pi)
      else if 0 < y then pi / 2
      else if y < 0 then - (pi / 2)
      else 0)"

definition signbit :: "real \<Rightarrow> bool \<Rightarrow> bool" where
  \<comment> \<open>The sign bit of a scalar: of its value, or of the zero it is (\<open>negzero\<close> for \<open>-0.0\<close>).\<close>
  "signbit y negzero = (y < 0 \<or> (y = 0 \<and> negzero))"

definition copysign :: "real \<Rightarrow> bool \<Rightarrow> real" where
  \<comment> \<open>\<open>std::copysign(x, y)\<close>: the magnitude of \<open>x\<close> with the sign bit of \<open>y\<close>.\<close>
  "copysign x sb = (if sb then - \<bar>x\<bar> else \<bar>x\<bar>)"

section \<open>Fixed-size vectors, matrices and quaternions\<close>

datatype vec3 = Vec3 (vx: real) (vy: real) (vz: real)

datatype mat3 = Mat3
  (m00: real) (m01: real) (m02: real)
  (m10: real) (m11: real) (m12: real)
  (m20: real) (m21: real) (m22: real)

text \<open>
  \<^verbatim>\<open>Eigen::Quaternion\<close> stores its coefficients in the order x, y, z, w.
  \<open>qw_negzero\<close> is the sign bit of \<open>w\<close> when \<open>w\<close> is zero, and is not read otherwise.
  A quaternion built from real coefficients has it clear; negating a quaternion flips it.
\<close>

record quat =
  qx :: real
  qy :: real
  qz :: real
  qw :: real
  qw_negzero :: bool

definition Quaternion :: "real \<Rightarrow> real \<Rightarrow> real \<Rightarrow> real \<Rightarrow> quat" where
  \<comment> \<open>The constructor \<^verbatim>\<open>Quaternion(w, x, y, z)\<close>.\<close>
  "Quaternion w x y z = \<lparr>qx = x, qy = y, qz = z, qw = w, qw_negzero = False\<rparr>"

definition coeffs_set :: "vec3 \<Rightarrow> real \<Rightarrow> quat" where
  \<comment> \<open>\<^verbatim>\<open>q.coeffs() << v, c\<close>: the vector part, then w.\<close>
  "coeffs_set v c = \<lparr>qx = vx v, qy = vy v, qz = vz v, qw = c, qw_negzero = False\<rparr>"

definition vec :: "quat \<Rightarrow> vec3" where
  "vec q = Vec3 (qx q) (qy q) (qz q)"

definition qneg :: "quat \<Rightarrow> quat" where
  \<comment> \<open>Every coefficient negated; negation flips the sign bit, of a zero too.\<close>
  "qneg q = \<lparr>qx = - qx q, qy = - qy q, qz = - qz q, qw = - qw q,
             qw_negzero = (\<not> qw_negzero q)\<rparr>"

definition qsquaredNorm :: "quat \<Rightarrow> real" where
  "qsquaredNorm q = qx q * qx q + qy q * qy q + qz q * qz q + qw q * qw q"

definition qnorm :: "quat \<Rightarrow> real" where
  "qnorm q = sqrt (qsquaredNorm q)"

definition coeffs :: "quat \<Rightarrow> real list" where
  \<comment> \<open>The four coefficients in storage order.\<close>
  "coeffs q = [qx q, qy q, qz q, qw q]"

definition squaredNorm :: "vec3 \<Rightarrow> real" where
  "squaredNorm v = vx v * vx v + vy v * vy v + vz v * vz v"

definition vnorm :: "vec3 \<Rightarrow> real" where
  "vnorm v = sqrt (squaredNorm v)"

definition vscale :: "real \<Rightarrow> vec3 \<Rightarrow> vec3" where
  "vscale s v = Vec3 (s * vx v) (s * vy v) (s * vz v)"

definition vdiv :: "vec3 \<Rightarrow> real \<Rightarrow> vec3 option" where
  "vdiv v s = (if s = 0 then None else Some (Vec3 (vx v / s) (vy v / s) (vz v / s)))"

definition normalized :: "vec3 \<Rightarrow> vec3 option" where
  \<comment> \<open>Eigen's \<^verbatim>\<open>normalized()\<close>: the vector over its norm. What it returns for the zero
      vector differs between Eigen versions; no result is modelled there.\<close>
  "normalized v = vdiv v (vnorm v)"

definition Identity :: mat3 where
  "Identity = Mat3 1 0 0  0 1 0  0 0 1"

definition trace :: "mat3 \<Rightarrow> real" where
  "trace m = m00 m + m11 m + m22 m"

definition mtranspose :: "mat3 \<Rightarrow> mat3" where
  "mtranspose m = Mat3 (m00 m) (m10 m) (m20 m)  (m01 m) (m11 m) (m21 m)  (m02 m) (m12 m) (m22 m)"

definition madd :: "mat3 \<Rightarrow> mat3 \<Rightarrow> mat3" where
  "madd a b = Mat3 (m00 a + m00 b) (m01 a + m01 b) (m02 a + m02 b)
                   (m10 a + m10 b) (m11 a + m11 b) (m12 a + m12 b)
                   (m20 a + m20 b) (m21 a + m21 b) (m22 a + m22 b)"

definition msub :: "mat3 \<Rightarrow> mat3 \<Rightarrow> mat3" where
  "msub a b = Mat3 (m00 a - m00 b) (m01 a - m01 b) (m02 a - m02 b)
                   (m10 a - m10 b) (m11 a - m11 b) (m12 a - m12 b)
                   (m20 a - m20 b) (m21 a - m21 b) (m22 a - m22 b)"

definition mscale :: "real \<Rightarrow> mat3 \<Rightarrow> mat3" where
  "mscale s a = Mat3 (s * m00 a) (s * m01 a) (s * m02 a)
                     (s * m10 a) (s * m11 a) (s * m12 a)
                     (s * m20 a) (s * m21 a) (s * m22 a)"

definition mdiv :: "mat3 \<Rightarrow> real \<Rightarrow> mat3 option" where
  "mdiv a s = (if s = 0 then None else
     Some (Mat3 (m00 a / s) (m01 a / s) (m02 a / s)
                (m10 a / s) (m11 a / s) (m12 a / s)
                (m20 a / s) (m21 a / s) (m22 a / s)))"

definition mmul :: "mat3 \<Rightarrow> mat3 \<Rightarrow> mat3" where
  "mmul a b = Mat3
     (m00 a * m00 b + m01 a * m10 b + m02 a * m20 b)
     (m00 a * m01 b + m01 a * m11 b + m02 a * m21 b)
     (m00 a * m02 b + m01 a * m12 b + m02 a * m22 b)
     (m10 a * m00 b + m11 a * m10 b + m12 a * m20 b)
     (m10 a * m01 b + m11 a * m11 b + m12 a * m21 b)
     (m10 a * m02 b + m11 a * m12 b + m12 a * m22 b)
     (m20 a * m00 b + m21 a * m10 b + m22 a * m20 b)
     (m20 a * m01 b + m21 a * m11 b + m22 a * m21 b)
     (m20 a * m02 b + m21 a * m12 b + m22 a * m22 b)"

definition outer :: "vec3 \<Rightarrow> vec3 \<Rightarrow> mat3" where
  \<comment> \<open>\<^verbatim>\<open>a * b.transpose()\<close>, a column times a row.\<close>
  "outer a b = Mat3 (vx a * vx b) (vx a * vy b) (vx a * vz b)
                    (vy a * vx b) (vy a * vy b) (vy a * vz b)
                    (vz a * vx b) (vz a * vy b) (vz a * vz b)"

definition determinant :: "mat3 \<Rightarrow> real" where
  "determinant m =
     m00 m * (m11 m * m22 m - m12 m * m21 m)
   - m01 m * (m10 m * m22 m - m12 m * m20 m)
   + m02 m * (m10 m * m21 m - m11 m * m20 m)"

definition is_rotation :: "mat3 \<Rightarrow> bool" where
  \<comment> \<open>A rotation matrix: orthonormal, with determinant one.\<close>
  "is_rotation m = (mmul (mtranspose m) m = Identity \<and> determinant m = 1)"

definition crossMatrix :: "vec3 \<Rightarrow> mat3" where
  \<comment> \<open>Modelled from the spec: \<^verbatim>\<open>crossMatrix\<close> is called by the Jacobian kernels and not
      defined in the two files at hand. Section 4.2 of the specification gives the cross
      matrix \<open>M\<close> of \<open>v\<close>: \<open>M[i][j] = -M[j][i]\<close>, \<open>M[2][1] = v.x\<close>, \<open>M[0][2] = v.y\<close>,
      \<open>M[1][0] = v.z\<close>.\<close>
  "crossMatrix v = Mat3 0 (- vz v) (vy v)
                        (vz v) 0 (- vx v)
                        (- vy v) (vx v) 0"

section \<open>util/math/math.hpp\<close>

definition randomQuaternion :: "real \<Rightarrow> real \<Rightarrow> real \<Rightarrow> quat" where
  \<comment> \<open>\<open>u0\<close>, \<open>u1\<close>, \<open>u2\<close> are what the three calls \<^verbatim>\<open>uniformRandom(0, 1)\<close> return, in
      the order of the calls; each call draws from the closed interval \<open>[0, 1]\<close>.\<close>
  "randomQuaternion u0 u1 u2 =
     (let s = u0;
          s1 = sqrt (1 - s);
          s2 = sqrt s;
          t1 = (2 * pi) * u1;
          t2 = (2 * pi) * u2
      in Quaternion (cos t2 * s2) (sin t1 * s1) (cos t1 * s1) (sin t2 * s2))"

definition uncrossMatrix :: "mat3 \<Rightarrow> vec3" where
  "uncrossMatrix skew = Vec3 (m21 skew) (m02 skew) (m10 skew)"

definition quaternionFromRotationVector :: "real \<Rightarrow> vec3 \<Rightarrow> quat option" where
  "quaternionFromRotationVector eps v =
     (let angle2 = squaredNorm v;
          angle = sqrt angle2
      in do {
        (s, c) \<leftarrow>
          (if angle2 * angle2 > eps then do {
             let sa = sin (angle / 2);
             s \<leftarrow> sdiv sa angle;
             Some (s, cos (angle / 2))
           } else
             Some (1 / 2 + angle2 / 48, 1 - angle2 / 8));
        Some (coeffs_set (vscale s v) c)
      })"

definition rotationVectorFromQuaternion :: "real \<Rightarrow> quat \<Rightarrow> vec3 option" where
  "rotationVectorFromQuaternion eps q =
     (let norm = vnorm (vec q)
      in if norm > eps then
           vdiv (vscale (2 * atan2 norm \<bar>qw q\<bar>) (vec q))
                (copysign norm (signbit (qw q) (qw_negzero q)))
         else
           Some (vscale 2 (vec q)))"

definition rotationVectorFromMatrix :: "real \<Rightarrow> mat3 \<Rightarrow> vec3 option" where
  "rotationVectorFromMatrix eps m =
     (let angle = acos_c ((trace m - 1) / 2)
      in if nan_gt (do { a \<leftarrow> angle; Some (a * a) }) eps then do {
           a \<leftarrow> angle;
           k \<leftarrow> sdiv a (2 * sin a);
           Some (uncrossMatrix (mscale k (msub m (mtranspose m))))
         } else
           Some (uncrossMatrix (mscale (1 / 2) (msub m (mtranspose m)))))"

definition jacobianOfRotationLogMap1 :: "vec3 \<Rightarrow> mat3 option" where
  \<comment> \<open>The overload that takes the rotation vector alone.\<close>
  "jacobianOfRotationLogMap1 phi =
     (let theta2 = squaredNorm phi;
          theta = sqrt theta2
      in do {
        A \<leftarrow> sdiv (sin theta) theta;
        B \<leftarrow> sdiv (1 - cos theta) theta2;
        k \<leftarrow> sdiv (B - (1 / 2) * A) (1 - cos theta);
        Some (madd (msub Identity (mscale (1 / 2) (crossMatrix phi)))
                   (mmul (mscale k (crossMatrix phi)) (crossMatrix phi)))
      })"

definition jacobianOfRotationLogMap2 :: "real \<Rightarrow> mat3 \<Rightarrow> vec3 \<Rightarrow> mat3 option" where
  \<comment> \<open>The overload that takes the rotation matrix and the rotation vector.\<close>
  "jacobianOfRotationLogMap2 eps C phi =
     (let pcross = crossMatrix phi;
          n2 = squaredNorm phi
      in if n2 > eps then
           mdiv (madd (mmul (msub Identity C) pcross) (outer phi phi)) n2
         else
           Some (madd Identity (mscale (1 / 2) pcross)))"

section \<open>geometry/leaf/RelativeRotation.hpp\<close>

record RelativeRotation =
  "value" :: vec3

definition LeafStorage_default :: vec3 where
  \<comment> \<open>Modelled from the spec: the defaulted constructor \<^verbatim>\<open>RelativeRotation() = default\<close>
      stores nothing itself, it runs the default constructor of \<^verbatim>\<open>LeafStorage\<close>, which
      is not in the two files at hand. Section 4.4 of the specification: default
      construction gives the zero rotation.\<close>
  "LeafStorage_default = Vec3 0 0 0"

definition RelativeRotation_default :: RelativeRotation where
  "RelativeRotation_default = \<lparr>value = LeafStorage_default\<rparr>"

definition setFromAngleAndAxis :: "real \<Rightarrow> vec3 \<Rightarrow> RelativeRotation \<Rightarrow> RelativeRotation option" where
  "setFromAngleAndAxis angle axis r =
     do { n \<leftarrow> normalized axis; Some (r\<lparr>value := vscale angle n\<rparr>) }"

definition FromAngleAndAxis :: "real \<Rightarrow> vec3 \<Rightarrow> RelativeRotation option" where
  "FromAngleAndAxis angle axis =
     (let r = RelativeRotation_default in setFromAngleAndAxis angle axis r)"

section \<open>Norms\<close>

lemma three_squares_zero:
  fixes x y z :: real
  assumes "x\<^sup>2 + y\<^sup>2 + z\<^sup>2 = 0"
  shows "x = 0 \<and> y = 0 \<and> z = 0"
proof -
  have "0 \<le> x\<^sup>2" "0 \<le> y\<^sup>2" "0 \<le> z\<^sup>2" by simp_all
  with assms have "x\<^sup>2 = 0 \<and> y\<^sup>2 = 0 \<and> z\<^sup>2 = 0" by linarith
  then show ?thesis by simp
qed

lemma squaredNorm_nonneg: "0 \<le> squaredNorm v"
  by (simp add: squaredNorm_def)

lemma squaredNorm_zero_iff: "squaredNorm v = 0 \<longleftrightarrow> v = Vec3 0 0 0"
proof
  assume h: "squaredNorm v = 0"
  obtain a b c where v: "v = Vec3 a b c" by (cases v)
  from h v have "a\<^sup>2 + b\<^sup>2 + c\<^sup>2 = 0" by (simp add: squaredNorm_def power2_eq_square)
  then have "a = 0 \<and> b = 0 \<and> c = 0"
    by (rule three_squares_zero)
  with v show "v = Vec3 0 0 0" by simp
next
  assume "v = Vec3 0 0 0"
  then show "squaredNorm v = 0" by (simp add: squaredNorm_def)
qed

lemma vnorm_zero_iff: "vnorm v = 0 \<longleftrightarrow> v = Vec3 0 0 0"
  by (simp add: vnorm_def squaredNorm_zero_iff)

lemma vnorm_nonneg: "0 \<le> vnorm v"
  by (simp add: vnorm_def squaredNorm_nonneg)

section \<open>The vee operator\<close>

text \<open>
  C9. \<open>uncrossMatrix\<close> gives back the vector a cross matrix was built from, and on any
  matrix \<open>M\<close> it reads the three entries \<open>M(2,1)\<close>, \<open>M(0,2)\<close>, \<open>M(1,0)\<close>, whether
  \<open>M\<close> is skew-symmetric or not.
\<close>

theorem uncrossMatrix_crossMatrix:
  "uncrossMatrix (crossMatrix w) = w \<and> uncrossMatrix M = Vec3 (m21 M) (m02 M) (m10 M)"
  by (simp add: uncrossMatrix_def crossMatrix_def)

section \<open>Random unit quaternions\<close>

lemma scaled_cos_sin_squares:
  fixes t x :: real
  shows "cos t * x * (cos t * x) + sin t * x * (sin t * x) = x * x"
proof -
  have "cos t * x * (cos t * x) + sin t * x * (sin t * x)
      = (cos t * cos t + sin t * sin t) * (x * x)"
    by (simp only: algebra_simps)
  then show ?thesis
    by (simp only: sin_cos_squared_add3 mult_1)
qed

text \<open>
  C10. Whatever the two angle samples are, a sample \<open>s\<close> in \<open>[0, 1]\<close> makes
  \<open>randomQuaternion\<close> return a quaternion of norm exactly one.
\<close>

theorem randomQuaternion_unit:
  assumes "0 \<le> u0" and "u0 \<le> 1"
  shows "qsquaredNorm (randomQuaternion u0 u1 u2) = 1 \<and> qnorm (randomQuaternion u0 u1 u2) = 1"
proof -
  define s1 where "s1 = sqrt (1 - u0)"
  define s2 where "s2 = sqrt u0"
  have a: "s1 * s1 = 1 - u0" using assms by (simp add: s1_def)
  have b: "s2 * s2 = u0" using assms by (simp add: s2_def)
  have "qsquaredNorm (randomQuaternion u0 u1 u2) =
      (sin (2 * pi * u1) * s1 * (sin (2 * pi * u1) * s1)
        + cos (2 * pi * u1) * s1 * (cos (2 * pi * u1) * s1))
    + (sin (2 * pi * u2) * s2 * (sin (2 * pi * u2) * s2)
        + cos (2 * pi * u2) * s2 * (cos (2 * pi * u2) * s2))"
    by (simp add: randomQuaternion_def qsquaredNorm_def Quaternion_def Let_def s1_def s2_def)
  also have "\<dots> = s1 * s1 + s2 * s2"
    using scaled_cos_sin_squares[of "2 * pi * u1" s1] scaled_cos_sin_squares[of "2 * pi * u2" s2]
    by simp
  also have "\<dots> = 1" using a b by simp
  finally have "qsquaredNorm (randomQuaternion u0 u1 u2) = 1" .
  then show ?thesis by (simp add: qnorm_def)
qed

theorem randomQuaternion_unit_witness:
  "(0::real) \<le> 1 / 4 \<and> (1::real) / 4 \<le> 1
   \<and> qsquaredNorm (randomQuaternion (1 / 4) 0 (1 / 2)) = 1
   \<and> qnorm (randomQuaternion (1 / 4) 0 (1 / 2)) = 1"
  using randomQuaternion_unit[of "1 / 4" 0 "1 / 2"] by simp

section \<open>The Jacobian kernels\<close>

text \<open>
  C3. For a machine epsilon that is not negative, the overload taking the matrix \<open>C\<close> and
  the vector \<open>v\<close> returns \<open>((I - C) * skew v + v * v\<^sup>T) / n2\<close> when
  \<open>n2 = squaredNorm v\<close> exceeds epsilon, and \<open>I + 0.5 * skew v\<close> otherwise. It holds for
  every matrix \<open>C\<close>, a rotation or not.
\<close>

theorem jacobianOfRotationLogMap2_value:
  assumes "0 \<le> eps"
  shows "jacobianOfRotationLogMap2 eps C v =
    Some (if squaredNorm v > eps
          then mscale (1 / squaredNorm v)
                 (madd (mmul (msub Identity C) (crossMatrix v)) (outer v v))
          else madd Identity (mscale (1 / 2) (crossMatrix v)))"
  using assms by (simp add: jacobianOfRotationLogMap2_def Let_def mdiv_def mscale_def)

theorem jacobianOfRotationLogMap2_value_witness:
  "(0::real) \<le> 1 / 2 ^ 52
   \<and> jacobianOfRotationLogMap2 (1 / 2 ^ 52) Identity (Vec3 0 0 2) =
       Some (Mat3 0 0 0  0 0 0  0 0 1)
   \<and> jacobianOfRotationLogMap2 (1 / 2 ^ 52) Identity (Vec3 0 0 0) = Some Identity"
  using jacobianOfRotationLogMap2_value[of "1 / 2 ^ 52" Identity "Vec3 0 0 2"]
        jacobianOfRotationLogMap2_value[of "1 / 2 ^ 52" Identity "Vec3 0 0 0"]
  by (simp add: squaredNorm_def crossMatrix_def outer_def Identity_def msub_def mmul_def
        madd_def mscale_def)

lemma jacobianOfRotationLogMap2_zero:
  "0 \<le> eps \<Longrightarrow> jacobianOfRotationLogMap2 eps C (Vec3 0 0 0) = Some Identity"
  by (simp add: jacobianOfRotationLogMap2_def squaredNorm_def crossMatrix_def mscale_def
        madd_def Identity_def)

text \<open>
  C4. At the zero vector the overload taking the vector alone divides zero by zero
  (\<open>sin theta / theta\<close> with \<open>theta = 0\<close>) and returns no matrix, where the claim
  expects the identity; the other overload does return the identity
  (\<open>jacobianOfRotationLogMap2_zero\<close>).
\<close>

theorem jacobianOfRotationLogMap1_zero:
  "jacobianOfRotationLogMap1 (Vec3 0 0 0) = None"
  by (simp add: jacobianOfRotationLogMap1_def squaredNorm_def sdiv_def)

section \<open>The exponential map\<close>

text \<open>
  C2. For a machine epsilon that is not negative, \<open>quaternionFromRotationVector\<close> returns
  a quaternion whose coefficients, in storage order x, y, z, w, are \<open>(s * v, c)\<close>, where
  with \<open>theta2 = squaredNorm v\<close> and \<open>theta = sqrt theta2\<close>: exactly when
  \<open>theta2 * theta2 > eps\<close>, \<open>s = sin (theta / 2) / theta\<close> and \<open>c = cos (theta / 2)\<close>;
  otherwise \<open>s = 0.5 + theta2 / 48\<close> and \<open>c = 1 - theta2 / 8\<close>.
\<close>

theorem quaternionFromRotationVector_branches:
  assumes "0 \<le> eps"
  shows "\<exists>q. quaternionFromRotationVector eps v = Some q \<and>
    coeffs q =
      (let theta2 = squaredNorm v;
           theta = sqrt theta2;
           s = (if theta2 * theta2 > eps then sin (theta / 2) / theta else 1 / 2 + theta2 / 48);
           c = (if theta2 * theta2 > eps then cos (theta / 2) else 1 - theta2 / 8)
       in [s * vx v, s * vy v, s * vz v, c])"
proof (cases "squaredNorm v * squaredNorm v > eps")
  case True
  with assms have "squaredNorm v \<noteq> 0" by auto
  then have "sqrt (squaredNorm v) \<noteq> 0" by simp
  with True show ?thesis
    by (simp add: quaternionFromRotationVector_def Let_def sdiv_def coeffs_def coeffs_set_def
          vscale_def)
next
  case False
  then show ?thesis
    by (simp add: quaternionFromRotationVector_def Let_def coeffs_def coeffs_set_def vscale_def)
qed

theorem quaternionFromRotationVector_branches_witness:
  "(0::real) \<le> 1 / 2 ^ 52
   \<and> (\<exists>q. quaternionFromRotationVector (1 / 2 ^ 52) (Vec3 0 0 pi) = Some q
          \<and> coeffs q = [0, 0, 1, 0])
   \<and> (\<exists>q. quaternionFromRotationVector (1 / 2 ^ 52) (Vec3 0 0 0) = Some q
          \<and> coeffs q = [0, 0, 0, 1])"
proof -
  have a: "\<not> pi * pi * (pi * pi) * 4503599627370496 \<le> 1"
  proof -
    have "1 < pi" using pi_ge_two by linarith
    then have "1 < pi * pi" by (simp add: less_1_mult)
    then have "1 < pi * pi * (pi * pi)" by (simp add: less_1_mult)
    then show ?thesis by linarith
  qed
  show ?thesis
    using quaternionFromRotationVector_branches[of "1 / 2 ^ 52" "Vec3 0 0 pi"]
          quaternionFromRotationVector_branches[of "1 / 2 ^ 52" "Vec3 0 0 0"] a
    by (simp add: squaredNorm_def Let_def field_simps)
qed

section \<open>The logarithmic map of a quaternion\<close>

lemma vnorm_vec_qneg: "vnorm (vec (qneg q)) = vnorm (vec q)"
  by (simp add: vnorm_def squaredNorm_def vec_def qneg_def)

lemma abs_qw_qneg: "\<bar>qw (qneg q)\<bar> = \<bar>qw q\<bar>"
  by (simp add: qneg_def)

lemma signbit_qneg:
  "signbit (qw (qneg q)) (qw_negzero (qneg q)) = (\<not> signbit (qw q) (qw_negzero q))"
  by (auto simp add: signbit_def qneg_def)

lemma copysign_flip: "copysign x (\<not> b) = - copysign x b"
  by (simp add: copysign_def)

lemma copysign_nonzero: "x \<noteq> 0 \<Longrightarrow> copysign x b \<noteq> 0"
  by (simp add: copysign_def)

lemma copysign_square: "copysign x b * copysign x b = x * x"
  by (simp add: copysign_def)

lemma vdiv_neg_neg: "vdiv (vscale k (vec (qneg q))) (- c) = vdiv (vscale k (vec q)) c"
  by (simp add: vdiv_def vscale_def vec_def qneg_def)

lemma atan2_pos_range:
  assumes "0 < y" and "0 \<le> x"
  shows "0 < atan2 y x \<and> atan2 y x \<le> pi / 2"
proof (cases "x = 0")
  case True
  with assms show ?thesis by (simp add: atan2_def)
next
  case False
  with assms have "0 < x" by simp
  then have "0 < y / x" using assms by simp
  then have "0 < arctan (y / x)" by simp
  moreover have "arctan (y / x) < pi / 2" by (rule arctan_ubound)
  ultimately show ?thesis using \<open>0 < x\<close> by (simp add: atan2_def)
qed

lemma vnorm_vdiv_vscale:
  assumes "vdiv (vscale k v) c = Some r" and "c * c = squaredNorm v" and "0 \<le> k"
  shows "vnorm r = k"
proof -
  from assms(1) have c: "c \<noteq> 0" and r: "r = Vec3 (k * vx v / c) (k * vy v / c) (k * vz v / c)"
    by (auto simp add: vdiv_def vscale_def split: if_splits)
  have "squaredNorm r = (k * k) * (squaredNorm v / (c * c))"
    unfolding r using c by (simp add: squaredNorm_def field_simps)
  also have "\<dots> = k * k"
  proof -
    have "c * c \<noteq> 0" using c by simp
    then have e: "squaredNorm v / (c * c) = 1" unfolding assms(2)[symmetric] by simp
    show ?thesis unfolding e by simp
  qed
  finally have "vnorm r = sqrt (k * k)" by (simp add: vnorm_def)
  then show ?thesis using assms(3) by simp
qed

lemma copysign_quot:
  assumes "0 < n"
  shows "n / copysign n b = (if b then - 1 else 1)"
  using assms by (simp add: copysign_def)

text \<open>
  On a unit pair \<open>(w, n)\<close> with \<open>n\<close> positive and \<open>w\<close> not negative, \<open>atan2 n w\<close> is the
  angle whose sine is \<open>n\<close> and whose cosine is \<open>w\<close>.
\<close>

lemma atan2_unit_sin_cos:
  assumes "0 < n" and "0 \<le> w" and "n * n + w * w = 1"
  shows "sin (atan2 n w) = n \<and> cos (atan2 n w) = w"
proof (cases "w = 0")
  case True
  with assms have "n * n = 1" by simp
  then have "n = 1" using assms(1) by (metis abs_of_pos real_sqrt_abs2 real_sqrt_one)
  with True assms show ?thesis by (simp add: atan2_def)
next
  case False
  with assms have w: "0 < w" by simp
  have "1 + (n / w)\<^sup>2 = 1 / (w * w)"
  proof -
    have "1 + (n / w)\<^sup>2 = (w * w + n * n) / (w * w)"
      using w by (simp add: power2_eq_square field_simps)
    then show ?thesis using assms(3) by (simp add: add.commute)
  qed
  then have "sqrt (1 + (n / w)\<^sup>2) = 1 / w"
    using w by (simp add: real_sqrt_divide)
  then show ?thesis using w by (simp add: atan2_def sin_arctan cos_arctan)
qed

text \<open>
  C6. For a machine epsilon that is not negative and a quaternion \<open>q\<close> whose vector part
  has a norm \<open>n\<close> above it, \<open>rotationVectorFromQuaternion\<close> returns one and the same vector
  \<open>r\<close> for \<open>q\<close> and for \<open>-q\<close>. That vector is \<open>2 * atan2 n |w| * vec q / copysign n w\<close>; its
  norm is the angle \<open>2 * atan2 n |w|\<close>, positive and at most \<open>pi\<close>. It is the rotation vector
  of the representative with \<open>w\<close> not negative: for a unit \<open>q\<close>, the quaternion
  \<open>(sin (|r| / 2) / |r| * r, cos (|r| / 2))\<close> is \<open>q\<close> when the sign bit of \<open>w\<close> is clear and
  \<open>-q\<close> when it is set.
\<close>

theorem rotationVectorFromQuaternion_double_cover:
  assumes "0 \<le> eps" and "vnorm (vec q) > eps"
  shows "\<exists>r. rotationVectorFromQuaternion eps q = Some r
           \<and> rotationVectorFromQuaternion eps (qneg q) = Some r
           \<and> r = (let n = vnorm (vec q);
                       c = copysign n (signbit (qw q) (qw_negzero q));
                       k = 2 * atan2 n \<bar>qw q\<bar>
                   in Vec3 (k * qx q / c) (k * qy q / c) (k * qz q / c))
           \<and> vnorm r = 2 * atan2 (vnorm (vec q)) \<bar>qw q\<bar>
           \<and> 0 < vnorm r \<and> vnorm r \<le> pi
           \<and> (qsquaredNorm q = 1 \<longrightarrow>
                 cos (vnorm r / 2) = \<bar>qw q\<bar>
               \<and> vscale (sin (vnorm r / 2) / vnorm r) r
                   = vec (if signbit (qw q) (qw_negzero q) then qneg q else q))"
proof -
  define n where "n = vnorm (vec q)"
  define k where "k = 2 * atan2 n \<bar>qw q\<bar>"
  define b where "b = signbit (qw q) (qw_negzero q)"
  define c where "c = copysign n b"
  have n: "0 < n" using assms by (simp add: n_def)
  then have c: "c \<noteq> 0" by (simp add: c_def copysign_nonzero)
  have k: "0 < k \<and> k \<le> pi" using atan2_pos_range[of n "\<bar>qw q\<bar>"] n by (simp add: k_def)
  have e1: "rotationVectorFromQuaternion eps q = vdiv (vscale k (vec q)) c"
    using assms(2) by (simp add: rotationVectorFromQuaternion_def Let_def n_def k_def c_def b_def)
  have e2: "rotationVectorFromQuaternion eps (qneg q) = vdiv (vscale k (vec (qneg q))) (- c)"
    using assms(2)
    by (simp add: rotationVectorFromQuaternion_def Let_def vnorm_vec_qneg signbit_qneg
          copysign_flip abs_qw_qneg n_def k_def c_def b_def)
  define r where "r = Vec3 (k * qx q / c) (k * qy q / c) (k * qz q / c)"
  have r: "vdiv (vscale k (vec q)) c = Some r"
    using c by (simp add: vdiv_def vscale_def vec_def r_def)
  have cc: "c * c = squaredNorm (vec q)"
    by (simp add: c_def copysign_square n_def vnorm_def squaredNorm_nonneg)
  with r k have vr: "vnorm r = k" using vnorm_vdiv_vscale[of k "vec q" c r] by simp
  have unit: "cos (vnorm r / 2) = \<bar>qw q\<bar>
      \<and> vscale (sin (vnorm r / 2) / vnorm r) r = vec (if b then qneg q else q)"
    if u: "qsquaredNorm q = 1"
  proof -
    have "n * n = squaredNorm (vec q)" by (simp add: n_def vnorm_def squaredNorm_nonneg)
    then have "n * n + \<bar>qw q\<bar> * \<bar>qw q\<bar> = 1"
      using u by (simp add: qsquaredNorm_def squaredNorm_def vec_def)
    then have sc: "sin (k / 2) = n \<and> cos (k / 2) = \<bar>qw q\<bar>"
      using atan2_unit_sin_cos[of n "\<bar>qw q\<bar>"] n by (simp add: k_def)
    have k0: "k \<noteq> 0" using k by simp
    have "n / k * (k * a / c) = (n / c) * a" for a
      using k0 by simp
    then have "n / k * (k * a / c) = (if b then - 1 else 1) * a" for a
      using copysign_quot[OF n, of b] by (simp add: c_def)
    then have "vscale (n / k) r = vec (if b then qneg q else q)"
      by (simp add: vscale_def r_def vec_def qneg_def)
    with sc show ?thesis by (simp add: vr)
  qed
  have f1: "rotationVectorFromQuaternion eps q = Some r" using e1 r by simp
  have f2: "rotationVectorFromQuaternion eps (qneg q) = Some r"
    using e2 r by (simp add: vdiv_neg_neg)
  have f3: "r = (let n = vnorm (vec q);
                     c = copysign n (signbit (qw q) (qw_negzero q));
                     k = 2 * atan2 n \<bar>qw q\<bar>
                 in Vec3 (k * qx q / c) (k * qy q / c) (k * qz q / c))"
    by (simp add: r_def Let_def n_def k_def c_def b_def)
  have f4: "vnorm r = 2 * atan2 (vnorm (vec q)) \<bar>qw q\<bar>" using vr by (simp add: k_def n_def)
  have f5: "0 < vnorm r" and f6: "vnorm r \<le> pi" using vr k by simp_all
  have f7: "qsquaredNorm q = 1 \<longrightarrow>
                 cos (vnorm r / 2) = \<bar>qw q\<bar>
               \<and> vscale (sin (vnorm r / 2) / vnorm r) r
                   = vec (if signbit (qw q) (qw_negzero q) then qneg q else q)"
    using unit by (simp add: b_def)
  show ?thesis
    by (rule exI[of _ r]) (intro conjI f1 f2 f3 f4 f5 f6 f7)
qed

theorem rotationVectorFromQuaternion_double_cover_witness:
  "(0::real) \<le> 1 / 2 ^ 52
   \<and> vnorm (vec \<lparr>qx = 1, qy = 0, qz = 0, qw = 0, qw_negzero = False\<rparr>) > 1 / 2 ^ 52
   \<and> qsquaredNorm \<lparr>qx = 1, qy = 0, qz = 0, qw = 0, qw_negzero = False\<rparr> = 1
   \<and> rotationVectorFromQuaternion (1 / 2 ^ 52)
        \<lparr>qx = 1, qy = 0, qz = 0, qw = 0, qw_negzero = False\<rparr> = Some (Vec3 pi 0 0)
   \<and> rotationVectorFromQuaternion (1 / 2 ^ 52)
        (qneg \<lparr>qx = 1, qy = 0, qz = 0, qw = 0, qw_negzero = False\<rparr>) = Some (Vec3 pi 0 0)
   \<and> vnorm (Vec3 pi 0 0) \<le> pi"
  using rotationVectorFromQuaternion_double_cover[of "1 / 2 ^ 52"
          "\<lparr>qx = 1, qy = 0, qz = 0, qw = 0, qw_negzero = False\<rparr>"]
  by (simp add: vnorm_def squaredNorm_def vec_def qsquaredNorm_def atan2_def copysign_def
        signbit_def Let_def)

section \<open>Exponential map, then logarithmic map\<close>

lemma vnorm_square: "vnorm v * vnorm v = squaredNorm v"
  by (simp add: vnorm_def squaredNorm_nonneg)

lemma vnorm_vscale: "vnorm (vscale s v) = \<bar>s\<bar> * vnorm v"
proof -
  have "squaredNorm (vscale s v) = (s * s) * squaredNorm v"
    by (simp add: squaredNorm_def vscale_def algebra_simps)
  then show ?thesis
    by (simp add: vnorm_def real_sqrt_mult)
qed

lemma cos_lower: "1 - x\<^sup>2 / 2 \<le> cos (x::real)"
proof -
  have "cos x = 1 - 2 * (sin (x / 2))\<^sup>2"
    using cos_double_sin[of "x / 2"] by simp
  moreover have "(sin (x / 2))\<^sup>2 \<le> (x / 2)\<^sup>2"
    using abs_sin_x_le_abs_x[of "x / 2"] by (simp add: abs_le_square_iff del: abs_divide)
  ultimately show ?thesis by (simp add: power2_eq_square)
qed

lemma sin_lower:
  assumes "0 \<le> (x::real)"
  shows "x - x ^ 3 / 6 \<le> sin x"
proof -
  have "(\<lambda>t. sin t - t + t ^ 3 / 6) 0 \<le> (\<lambda>t. sin t - t + t ^ 3 / 6) x"
  proof (rule DERIV_nonneg_imp_nondecreasing[OF assms])
    fix t :: real
    assume "0 \<le> t"
    have "((\<lambda>t. sin t - t + t ^ 3 / 6) has_real_derivative (cos t - 1 + t\<^sup>2 / 2)) (at t)"
      by (auto intro!: derivative_eq_intros)
    moreover have "0 \<le> cos t - 1 + t\<^sup>2 / 2" using cos_lower[of t] by simp
    ultimately show "\<exists>y. ((\<lambda>t. sin t - t + t ^ 3 / 6) has_real_derivative y) (at t) \<and> 0 \<le> y"
      by blast
  qed
  then show ?thesis by simp
qed

lemma tan_upper:
  assumes "0 \<le> (y::real)" and "y < 1"
  shows "tan y \<le> y / (1 - y\<^sup>2 / 2)"
proof -
  have "y * y < 1 * 1" using assms by (intro mult_strict_mono') simp_all
  then have d: "0 < 1 - y\<^sup>2 / 2" by (simp add: power2_eq_square)
  have "y \<le> pi" using assms(2) pi_ge_two by linarith
  then have "0 \<le> sin y" using assms(1) by (intro sin_ge_zero)
  then have "sin y / cos y \<le> y / (1 - y\<^sup>2 / 2)"
    using sin_x_le_x[OF assms(1)] d cos_lower[of y] assms(1) by (intro frac_le)
  then show ?thesis by (simp add: tan_def)
qed

text \<open>
  In the closed-form branch the vector part of the quaternion has norm \<open>sin (theta / 2)\<close>,
  which is above epsilon: the logarithmic map takes its own closed-form branch.
\<close>

lemma sin_half_above_eps:
  assumes "0 \<le> eps" and "eps \<le> 1 / 16" and "0 < x" and "x < pi / 2"
    and "eps < (2 * x) * (2 * x) * ((2 * x) * (2 * x))"
  shows "eps < sin x"
proof (rule ccontr)
  assume "\<not> eps < sin x"
  then have le: "sin x \<le> eps" by simp
  have x2: "x < 2" using assms(4) pi_half_less_two by linarith
  have "x * x < 2 * 2" using assms(3) x2 by (intro mult_strict_mono) simp_all
  then have "x * (x * x) \<le> x * 4" using assms(3) by (intro mult_left_mono) simp_all
  then have "x ^ 3 / 6 \<le> 2 * x / 3" by (simp add: power3_eq_cube)
  with sin_lower[of x] assms(3) have "x / 3 \<le> sin x" by simp
  with le have x3: "x \<le> 3 * eps" by simp
  define t where "t = 2 * x"
  have t0: "0 < t" using assms(3) by (simp add: t_def)
  have t6: "t \<le> 6 * eps" using x3 by (simp add: t_def)
  with assms(2) have th: "t \<le> 1 / 2" by simp
  have "t * t \<le> (1 / 2) * (1 / 2)" using t0 th by (intro mult_mono) simp_all
  then have tt: "t * t \<le> 1 / 4" by simp
  have "(t * t) * t \<le> (1 / 4) * (1 / 2)" using t0 th tt by (intro mult_mono) simp_all
  then have ttt: "t * t * t \<le> 1 / 8" by simp
  have "(t * t * t) * t \<le> (1 / 8) * (6 * eps)"
    using t0 t6 ttt assms(1) by (intro mult_mono) simp_all
  then have "t * t * (t * t) \<le> 3 / 4 * eps" by (simp add: mult.assoc)
  moreover have "eps < t * t * (t * t)" using assms(5) by (simp add: t_def)
  ultimately show False using assms(1) by simp
qed

text \<open>
  On a vector along the x axis that takes the series branch, the round trip returns
  \<open>2 * arctan (s * a / c)\<close> in place of \<open>a\<close>.
\<close>

lemma series_branch_roundtrip:
  assumes "0 < a" and "a * a * (a * a) \<le> eps"
    and "0 < 1 - a * a / 8" and "eps < (1 / 2 + a * a / 48) * a"
  shows "Option.bind (quaternionFromRotationVector eps (Vec3 a 0 0))
           (rotationVectorFromQuaternion eps)
         = Some (Vec3 (2 * arctan ((1 / 2 + a * a / 48) * a / (1 - a * a / 8))) 0 0)"
proof -
  define s where "s = 1 / 2 + a * a / 48"
  define c where "c = 1 - a * a / 8"
  have s0: "0 < s" unfolding s_def using assms(1) by (simp add: add_pos_nonneg)
  have sa: "0 < s * a" using s0 assms(1) by simp
  have e: "quaternionFromRotationVector eps (Vec3 a 0 0)
         = Some \<lparr>qx = s * a, qy = 0, qz = 0, qw = c, qw_negzero = False\<rparr>"
    using assms(2)
    by (simp add: quaternionFromRotationVector_def squaredNorm_def Let_def coeffs_set_def
          vscale_def s_def c_def)
  have n: "vnorm (vec \<lparr>qx = s * a, qy = 0, qz = 0, qw = c, qw_negzero = False\<rparr>) = s * a"
    using sa by (simp add: vnorm_def squaredNorm_def vec_def)
  have "rotationVectorFromQuaternion eps
          \<lparr>qx = s * a, qy = 0, qz = 0, qw = c, qw_negzero = False\<rparr>
      = Some (Vec3 (2 * arctan (s * a / c)) 0 0)"
    using assms(1,3,4) s0 sa n
    by (simp add: rotationVectorFromQuaternion_def Let_def atan2_def copysign_def signbit_def
          vdiv_def vscale_def vec_def s_def[symmetric] c_def[symmetric])
  with e show ?thesis by (simp add: s_def c_def)
qed

text \<open>
  The closed-form branch is exact. Let epsilon lie in \<open>[0, 1/16]\<close> and \<open>v\<close> have norm below
  \<open>pi\<close>. If \<open>squaredNorm v * squaredNorm v > eps\<close>, or \<open>v\<close> is the zero vector, then
  \<open>rotationVectorFromQuaternion\<close> applied to \<open>quaternionFromRotationVector v\<close> returns \<open>v\<close>.
\<close>

lemma roundtrip_closed_form:
  assumes "0 \<le> eps" and "eps \<le> 1 / 16" and "vnorm v < pi"
    and "squaredNorm v * squaredNorm v > eps \<or> v = Vec3 0 0 0"
  shows "Option.bind (quaternionFromRotationVector eps v) (rotationVectorFromQuaternion eps)
           = Some v"
proof (cases "v = Vec3 0 0 0")
  case True
  with assms(1) show ?thesis
    by (simp add: quaternionFromRotationVector_def rotationVectorFromQuaternion_def
          squaredNorm_def vnorm_def vec_def coeffs_set_def vscale_def)
next
  case False
  with assms(4) have big: "squaredNorm v * squaredNorm v > eps" by simp
  define th where "th = vnorm v"
  define x where "x = th / 2"
  define s where "s = sin x / th"
  have sq: "squaredNorm v = th * th" by (simp add: th_def vnorm_square)
  have "squaredNorm v \<noteq> 0" using big assms(1) by auto
  then have th0: "0 < th" using vnorm_nonneg[of v] by (auto simp add: th_def vnorm_def)
  have x0: "0 < x" and xpi: "x < pi / 2" using th0 assms(3) by (simp_all add: x_def th_def)
  have sinx: "0 < sin x" using x0 xpi by (intro sin_gt_zero2)
  have cosx: "0 < cos x" using x0 xpi by (intro cos_gt_zero) simp_all
  have e: "quaternionFromRotationVector eps v = Some (coeffs_set (vscale s v) (cos x))"
    using big th0
    by (simp add: quaternionFromRotationVector_def Let_def sdiv_def s_def x_def th_def vnorm_def)
  have n: "vnorm (vec (coeffs_set (vscale s v) (cos x))) = sin x"
  proof -
    have "vec (coeffs_set (vscale s v) (cos x)) = vscale s v"
      by (simp add: vec_def coeffs_set_def vscale_def)
    then show ?thesis using sinx th0 by (simp add: vnorm_vscale s_def th_def[symmetric])
  qed
  have "eps < (2 * x) * (2 * x) * ((2 * x) * (2 * x))" using big by (simp add: sq x_def)
  then have above: "eps < sin x" using sin_half_above_eps assms(1,2) x0 xpi by blast
  have at: "atan2 (sin x) \<bar>cos x\<bar> = x"
  proof -
    have "atan2 (sin x) \<bar>cos x\<bar> = arctan (sin x / cos x)" using cosx by (simp add: atan2_def)
    also have "\<dots> = arctan (tan x)" by (simp add: tan_def)
    also have "\<dots> = x" using x0 xpi by (intro arctan_tan) simp_all
    finally show ?thesis .
  qed
  have cs: "copysign (sin x) (signbit (cos x) False) = sin x"
    using sinx cosx by (simp add: copysign_def signbit_def)
  have "rotationVectorFromQuaternion eps (coeffs_set (vscale s v) (cos x))
      = vdiv (vscale (2 * x) (vscale s v)) (sin x)"
    using above n at cs
    by (simp add: rotationVectorFromQuaternion_def Let_def coeffs_set_def vec_def vscale_def)
  also have "\<dots> = Some v"
  proof -
    have k: "2 * x * s / sin x = 1" using sinx th0 by (simp add: s_def x_def)
    have "2 * x * (s * a) / sin x = (2 * x * s / sin x) * a" for a
      by (simp add: mult.assoc)
    then have "2 * x * (s * a) / sin x = a" for a
      by (simp only: k mult_1)
    then show ?thesis using sinx by (cases v) (simp add: vdiv_def vscale_def)
  qed
  finally show ?thesis using e by simp
qed

lemma roundtrip_closed_form_example:
  "(0::real) \<le> 1 / 2 ^ 52 \<and> (1::real) / 2 ^ 52 \<le> 1 / 16 \<and> vnorm (Vec3 0 0 1) < pi
   \<and> (squaredNorm (Vec3 0 0 1) * squaredNorm (Vec3 0 0 1) > 1 / 2 ^ 52)
   \<and> Option.bind (quaternionFromRotationVector (1 / 2 ^ 52) (Vec3 0 0 1))
         (rotationVectorFromQuaternion (1 / 2 ^ 52)) = Some (Vec3 0 0 1)"
proof -
  have "(1::real) < pi" using pi_ge_two by linarith
  then show ?thesis
    using roundtrip_closed_form[of "1 / 2 ^ 52" "Vec3 0 0 1"]
    by (simp add: vnorm_def squaredNorm_def)
qed

text \<open>
  C1. The claim is that for every \<open>v\<close> of norm below \<open>pi\<close> the logarithmic map of the
  exponential map of \<open>v\<close> is \<open>v\<close>, up to floating tolerance. The series branch of the code
  breaks it. With the epsilon of double precision and \<open>v = (2^-13, 0, 0)\<close>, of norm below
  \<open>pi\<close>, the exponential map takes its series branch, and the logarithmic map of the
  result is not \<open>v\<close>: its x coordinate exceeds that of \<open>v\<close> by more than the fraction
  \<open>2^-31\<close>, about two million times the machine epsilon, in exact arithmetic. The series
  branch takes \<open>s = 0.5 + theta2 / 48\<close>, where the series of \<open>sin (theta / 2) / theta\<close> is
  \<open>0.5 - theta2 / 48 + ...\<close>; the closed-form branch returns \<open>v\<close> exactly
  (\<open>roundtrip_closed_form\<close>).
\<close>

theorem roundtrip_series_branch_deviation:
  "vnorm (Vec3 (1 / 2 ^ 13) 0 0) < pi
   \<and> Option.bind (quaternionFromRotationVector (1 / 2 ^ 52) (Vec3 (1 / 2 ^ 13) 0 0))
        (rotationVectorFromQuaternion (1 / 2 ^ 52)) \<noteq> Some (Vec3 (1 / 2 ^ 13) 0 0)
   \<and> vx (the (Option.bind (quaternionFromRotationVector (1 / 2 ^ 52) (Vec3 (1 / 2 ^ 13) 0 0))
        (rotationVectorFromQuaternion (1 / 2 ^ 52)))) > (1 / 2 ^ 13) * (1 + 1 / 2 ^ 31)"
proof -
  define a :: real where "a = 1 / 2 ^ 13"
  define u :: real where "u = (1 / 2 + a * a / 48) * a / (1 - a * a / 8)"
  define y :: real where "y = (a / 2) * (1 + 1 / 2 ^ 31)"
  have r: "Option.bind (quaternionFromRotationVector (1 / 2 ^ 52) (Vec3 a 0 0))
        (rotationVectorFromQuaternion (1 / 2 ^ 52)) = Some (Vec3 (2 * arctan u) 0 0)"
    unfolding u_def by (rule series_branch_roundtrip) (simp_all add: a_def)
  have y0: "0 \<le> y" and y1: "y < 1" by (simp_all add: y_def a_def)
  have "tan y \<le> y / (1 - y\<^sup>2 / 2)" using y0 y1 by (rule tan_upper)
  also have "\<dots> < u" by (simp add: y_def u_def a_def power2_eq_square)
  finally have "arctan (tan y) < arctan u" by (simp only: arctan_less_iff)
  moreover have "arctan (tan y) = y"
    using y0 y1 pi_ge_two by (intro arctan_tan) linarith+
  ultimately have big: "a * (1 + 1 / 2 ^ 31) < 2 * arctan u" by (simp add: y_def)
  have "vnorm (Vec3 a 0 0) = \<bar>a\<bar>" by (simp add: vnorm_def squaredNorm_def)
  also have "\<dots> < 2" by (simp add: a_def)
  finally have n: "vnorm (Vec3 a 0 0) < pi" using pi_ge_two by linarith
  have ne: "2 * arctan u \<noteq> a" using big by (simp add: a_def)
  show ?thesis
    using r big n ne unfolding a_def by simp
qed

section \<open>The logarithmic map of a rotation matrix\<close>

lemma lagrange3:
  fixes b e h c f i :: real
  shows "(e * i - h * f)\<^sup>2 + (h * c - b * i)\<^sup>2 + (b * f - e * c)\<^sup>2
      = (b * b + e * e + h * h) * (c * c + f * f + i * i) - (b * c + e * f + h * i)\<^sup>2"
  by (simp add: power2_eq_square algebra_simps)

lemma diff_squares3:
  fixes a d g p q r :: real
  shows "(a - p)\<^sup>2 + (d - q)\<^sup>2 + (g - r)\<^sup>2
      = (a * a + d * d + g * g) - 2 * (a * p + d * q + g * r) + (p\<^sup>2 + q\<^sup>2 + r\<^sup>2)"
  by (simp add: power2_eq_square algebra_simps)

text \<open>
  Of three orthonormal vectors with triple product one, the first is the cross product of
  the other two.
\<close>

lemma orthonormal_cross:
  fixes a d g b e h c f i :: real
  assumes n1: "a * a + d * d + g * g = 1"
    and n2: "b * b + e * e + h * h = 1"
    and n3: "c * c + f * f + i * i = 1"
    and o23: "b * c + e * f + h * i = 0"
    and det: "a * (e * i - h * f) + d * (h * c - b * i) + g * (b * f - e * c) = 1"
  shows "a = e * i - h * f \<and> d = h * c - b * i \<and> g = b * f - e * c"
proof -
  have "(a - (e * i - h * f))\<^sup>2 + (d - (h * c - b * i))\<^sup>2 + (g - (b * f - e * c))\<^sup>2
      = (a * a + d * d + g * g)
        - 2 * (a * (e * i - h * f) + d * (h * c - b * i) + g * (b * f - e * c))
        + ((e * i - h * f)\<^sup>2 + (h * c - b * i)\<^sup>2 + (b * f - e * c)\<^sup>2)"
    by (rule diff_squares3)
  also have "\<dots> = 1 - 2 * 1 + (1 * 1 - 0\<^sup>2)"
    by (simp only: n1 n2 n3 o23 det lagrange3)
  also have "\<dots> = 0" by simp
  finally have "(a - (e * i - h * f))\<^sup>2 + (d - (h * c - b * i))\<^sup>2
      + (g - (b * f - e * c))\<^sup>2 = 0" .
  then have "a - (e * i - h * f) = 0 \<and> d - (h * c - b * i) = 0 \<and> g - (b * f - e * c) = 0"
    by (rule three_squares_zero)
  then show ?thesis by simp
qed

text \<open>
  The trace of a rotation matrix lies in \<open>[-1, 3]\<close>, so \<open>acos\<close> is defined at
  \<open>(trace - 1) / 2\<close>. With \<open>t\<close> the trace, the trace of the square is \<open>t\<^sup>2 - 2 t\<close> (the
  principal minors of a rotation matrix are its diagonal entries) and is at most 3.
\<close>

lemma rotation_trace_bounds:
  assumes "is_rotation m"
  shows "- 1 \<le> trace m \<and> trace m \<le> 3"
proof -
  obtain a b c d e f g h i where m: "m = Mat3 a b c d e f g h i" by (cases m)
  from assms have n1: "a * a + d * d + g * g = 1"
    and n2: "b * b + e * e + h * h = 1"
    and n3: "c * c + f * f + i * i = 1"
    and o12: "a * b + d * e + g * h = 0"
    and o13: "a * c + d * f + g * i = 0"
    and o23: "b * c + e * f + h * i = 0"
    and det: "a * (e * i - f * h) - b * (d * i - f * g) + c * (d * h - e * g) = 1"
    by (simp_all add: is_rotation_def m mmul_def mtranspose_def Identity_def determinant_def)
  have d1: "a * (e * i - h * f) + d * (h * c - b * i) + g * (b * f - e * c)
      = a * (e * i - f * h) - b * (d * i - f * g) + c * (d * h - e * g)"
    by (simp add: algebra_simps)
  have d2: "b * (f * g - i * d) + e * (i * a - c * g) + h * (c * d - f * a)
      = a * (e * i - f * h) - b * (d * i - f * g) + c * (d * h - e * g)"
    by (simp add: algebra_simps)
  have d3: "c * (d * h - g * e) + f * (g * b - a * h) + i * (a * e - d * b)
      = a * (e * i - f * h) - b * (d * i - f * g) + c * (d * h - e * g)"
    by (simp add: algebra_simps)
  have o31: "c * a + f * d + i * g = 0" using o13 by (simp only: mult.commute)
  have c1: "a = e * i - h * f"
    using orthonormal_cross[OF n1 n2 n3 o23] d1 det by simp
  have c2: "e = i * a - c * g"
    using orthonormal_cross[OF n2 n3 n1 o31] d2 det by simp
  have c3: "i = a * e - d * b"
    using orthonormal_cross[OF n3 n1 n2 o12] d3 det by simp
  define t where "t = a + e + i"
  have "(e * i - f * h) + (a * i - c * g) + (a * e - b * d)
      = (e * i - h * f) + (i * a - c * g) + (a * e - d * b)"
    by (simp only: mult.commute)
  also have "\<dots> = t" unfolding t_def using c1 c2 c3 by linarith
  finally have minors: "(e * i - f * h) + (a * i - c * g) + (a * e - b * d) = t" .
  have tt: "t * t - 2 * ((e * i - f * h) + (a * i - c * g) + (a * e - b * d))
      = a * a + e * e + i * i + 2 * (b * d + c * g + f * h)"
    by (simp add: t_def algebra_simps)
  have "0 \<le> (b - d)\<^sup>2 + (c - g)\<^sup>2 + (f - h)\<^sup>2" by simp
  moreover have "(b - d)\<^sup>2 + (c - g)\<^sup>2 + (f - h)\<^sup>2
      = b * b + d * d + c * c + g * g + f * f + h * h - 2 * (b * d + c * g + f * h)"
    by (simp add: power2_eq_square algebra_simps)
  ultimately have "2 * (b * d + c * g + f * h) \<le> b * b + d * d + c * c + g * g + f * f + h * h"
    by linarith
  moreover have "t * t - 2 * t = a * a + e * e + i * i + 2 * (b * d + c * g + f * h)"
    using tt unfolding minors .
  moreover have "(a * a + d * d + g * g) + (b * b + e * e + h * h) + (c * c + f * f + i * i) = 3"
    by (simp only: n1 n2 n3)
  ultimately have "t * t - 2 * t \<le> 3" by linarith
  moreover have "(t - 3) * (t + 1) = t * t - 2 * t - 3" by (simp add: algebra_simps)
  ultimately have "(t - 3) * (t + 1) \<le> 0" by linarith
  then have "- 1 \<le> t \<and> t \<le> 3" by (auto simp add: mult_le_0_iff)
  then show ?thesis by (simp add: m trace_def t_def)
qed

text \<open>
  C5. For a rotation matrix \<open>C\<close>, \<open>acos\<close> is defined at \<open>(trace C - 1) / 2\<close>; with \<open>angle\<close>
  its value, \<open>rotationVectorFromMatrix\<close> returns
  \<open>vee (angle / (2 * sin angle) * (C - C\<^sup>T))\<close> exactly when \<open>angle * angle > eps\<close>, and
  \<open>vee (0.5 * (C - C\<^sup>T))\<close> otherwise. Where \<open>sin angle = 0\<close> in the first case (a half
  turn), the quotient of the formula has divisor zero in exact arithmetic and has no value
  here; in floating point the sine of the rounded \<open>pi\<close> is not zero.
\<close>

theorem rotationVectorFromMatrix_value:
  assumes "is_rotation C"
  shows "acos_c ((trace C - 1) / 2) = Some (arccos ((trace C - 1) / 2))
    \<and> rotationVectorFromMatrix eps C =
       (let angle = arccos ((trace C - 1) / 2);
            D = msub C (mtranspose C)
        in if angle * angle > eps
           then (if sin angle = 0 then None
                 else Some (uncrossMatrix (mscale (angle / (2 * sin angle)) D)))
           else Some (uncrossMatrix (mscale (1 / 2) D)))"
proof -
  from rotation_trace_bounds[OF assms]
  have a: "acos_c ((trace C - 1) / 2) = Some (arccos ((trace C - 1) / 2))"
    by (simp add: acos_c_def)
  show ?thesis
    unfolding a rotationVectorFromMatrix_def
    by (simp add: a Let_def nan_gt_def sdiv_def)
qed

theorem rotationVectorFromMatrix_value_witness:
  "is_rotation (Mat3 0 (- 1) 0  1 0 0  0 0 1)
   \<and> acos_c ((trace (Mat3 0 (- 1) 0  1 0 0  0 0 1) - 1) / 2) = Some (pi / 2)
   \<and> rotationVectorFromMatrix (1 / 2 ^ 52) (Mat3 0 (- 1) 0  1 0 0  0 0 1)
       = Some (Vec3 0 0 (pi / 2))"
proof -
  have r: "is_rotation (Mat3 0 (- 1) 0  1 0 0  0 0 1)"
    by (simp add: is_rotation_def mmul_def mtranspose_def Identity_def determinant_def)
  have "1 * 1 \<le> pi / 2 * (pi / 2)" using pi_ge_two by (intro mult_mono) simp_all
  then have p: "(1::real) / 2 ^ 52 < pi / 2 * (pi / 2)" by simp
  have t: "(trace (Mat3 0 (- 1) 0  1 0 0  0 0 1) - 1) / 2 = 0" by (simp add: trace_def)
  show ?thesis
    using rotationVectorFromMatrix_value[OF r, of "1 / 2 ^ 52"] r p unfolding t
    by (simp add: Let_def msub_def mtranspose_def mscale_def uncrossMatrix_def)
qed

section \<open>RelativeRotation\<close>

text \<open>
  C7. For a nonzero axis, \<open>setFromAngleAndAxis\<close> sets the value to the angle times the axis
  over its norm, whatever the value was, and \<open>FromAngleAndAxis\<close> returns what default
  construction followed by \<open>setFromAngleAndAxis\<close> gives.
\<close>

theorem setFromAngleAndAxis_value:
  assumes "axis \<noteq> Vec3 0 0 0"
  shows "setFromAngleAndAxis angle axis r =
           Some (r\<lparr>value := Vec3 (angle * (vx axis / vnorm axis))
                                (angle * (vy axis / vnorm axis))
                                (angle * (vz axis / vnorm axis))\<rparr>)
       \<and> FromAngleAndAxis angle axis =
           setFromAngleAndAxis angle axis RelativeRotation_default"
  using assms
  by (simp add: setFromAngleAndAxis_def FromAngleAndAxis_def normalized_def vdiv_def
        vnorm_zero_iff vscale_def)

theorem setFromAngleAndAxis_value_witness:
  "Vec3 0 0 2 \<noteq> Vec3 0 0 0
   \<and> setFromAngleAndAxis (pi / 2) (Vec3 0 0 2) \<lparr>value = Vec3 1 1 1\<rparr>
       = Some \<lparr>value = Vec3 0 0 (pi / 2)\<rparr>
   \<and> FromAngleAndAxis (pi / 2) (Vec3 0 0 2) = Some \<lparr>value = Vec3 0 0 (pi / 2)\<rparr>"
  using setFromAngleAndAxis_value[of "Vec3 0 0 2" "pi / 2" "\<lparr>value = Vec3 1 1 1\<rparr>"]
        setFromAngleAndAxis_value[of "Vec3 0 0 2" "pi / 2" RelativeRotation_default]
  by (simp add: vnorm_def squaredNorm_def vscale_def RelativeRotation_default_def)

text \<open>
  C8. A default-constructed \<open>RelativeRotation\<close> holds the vector \<open>(0, 0, 0)\<close>, and that is
  the zero rotation: for a machine epsilon that is not negative the exponential map sends
  it to the identity quaternion \<open>(0, 0, 0, 1)\<close>.
\<close>

theorem RelativeRotation_default_zero:
  "value RelativeRotation_default = Vec3 0 0 0
   \<and> (0 \<le> eps \<longrightarrow>
        map_option coeffs (quaternionFromRotationVector eps (value RelativeRotation_default))
          = Some [0, 0, 0, 1])"
  by (simp add: RelativeRotation_default_def LeafStorage_default_def
        quaternionFromRotationVector_def squaredNorm_def coeffs_def coeffs_set_def vscale_def)

theorem RelativeRotation_default_zero_witness:
  "value RelativeRotation_default = Vec3 0 0 0 \<and> (0::real) \<le> 1 / 2 ^ 52
   \<and> map_option coeffs
        (quaternionFromRotationVector (1 / 2 ^ 52) (value RelativeRotation_default))
       = Some [0, 0, 0, 1]"
  using RelativeRotation_default_zero[of "1 / 2 ^ 52"] by auto

end
